theory Spec2Isabelle
  imports Main
begin

section \<open>On-type rename: data model\<close>

text \<open>
  The development follows \<^verbatim>\<open>src/vs/editor/contrib/rename/onTypeRename.ts\<close>.
  Line numbers, columns and offsets are JavaScript numbers that only ever hold
  integers here; they are modelled as \<^typ>\<open>int\<close>, so that the subtraction
  \<^verbatim>\<open>change.rangeOffset - firstStartOffset\<close> is the subtraction of the source.
\<close>

record Position =
  lineNumber :: int
  column :: int

record IRange =
  startLineNumber :: int
  startColumn :: int
  endLineNumber :: int
  endColumn :: int

text \<open>One entry of \<^verbatim>\<open>e.changes\<close> of a content-change event.\<close>

record IModelContentChange =
  change_range :: IRange
  rangeOffset :: int
  rangeLength :: int
  change_text :: string

record IModelContentChangedEvent =
  changes :: "IModelContentChange list"

text \<open>The object literal \<^verbatim>\<open>{ range: targetRange, text: change.text }\<close>.\<close>

record IIdentifiedSingleEditOperation =
  edit_range :: IRange
  edit_text :: string

datatype js_error = TypeError | Canceled | Failure string

subsection \<open>The editor, as far as the contribution uses it\<close>

text \<open>
  The text model is an external collaborator; the contribution only calls
  \<^verbatim>\<open>getOffsetAt\<close> on it, which is taken as a parameter.
\<close>

record ITextModel =
  getOffsetAt :: "Position \<Rightarrow> int"

text \<open>
  The editor is external too. Its record holds what the contribution reads
  (\<^verbatim>\<open>getModel\<close>, \<^verbatim>\<open>getPosition\<close>, the option
  \<^verbatim>\<open>EditorOption.autoRename\<close>) and the trace of what the contribution
  asks it to do: every \<^verbatim>\<open>executeEdits\<close> call and every
  \<^verbatim>\<open>deltaDecorations\<close> call, in order. The content-change event that the
  editor raises for an executed edit is one more event, delivered to the
  listener like any other.
\<close>

record ICodeEditor =
  getModel :: "ITextModel option"
  getPosition :: "Position option"
  autoRename :: bool
  decorations :: "(nat \<times> IRange) list"
  nextDecorationId :: nat
  deltaDecorationsCalls :: "(nat list \<times> IRange list) list"
  executedEdits :: "(string \<times> IIdentifiedSingleEditOperation list) list"

definition hasModel :: "ICodeEditor \<Rightarrow> bool" where
  "hasModel ed = (getModel ed \<noteq> None)"

definition executeEdits ::
  "string \<Rightarrow> IIdentifiedSingleEditOperation list \<Rightarrow> ICodeEditor \<Rightarrow> ICodeEditor" where
  "executeEdits source edits ed = ed\<lparr>executedEdits := executedEdits ed @ [(source, edits)]\<rparr>"

text \<open>
  Modelled from the spec: the decoration channel \<^verbatim>\<open>deltaDecorations\<close> of the
  editor is not part of the source file. Section 6 of the specification describes
  it: it accepts "replace this set of decoration handles with this new set of
  (range, style) pairs" and returns new opaque handles. Handles are natural
  numbers here, handed out from a counter; the style is the one constant
  \<^verbatim>\<open>DECORATION\<close> and is left out.
\<close>

definition deltaDecorations ::
  "nat list \<Rightarrow> IRange list \<Rightarrow> ICodeEditor \<Rightarrow> nat list \<times> ICodeEditor" where
  "deltaDecorations oldDecorations newDecorations ed =
     (let ids = [nextDecorationId ed ..< nextDecorationId ed + length newDecorations]
      in (ids,
          ed\<lparr>decorations :=
                filter (\<lambda>d. fst d \<notin> set oldDecorations) (decorations ed) @ zip ids newDecorations,
             nextDecorationId := nextDecorationId ed + length newDecorations,
             deltaDecorationsCalls :=
                deltaDecorationsCalls ed @ [(oldDecorations, newDecorations)]\<rparr>))"

section \<open>The contribution\<close>

text \<open>
  \<^verbatim>\<open>isWithin\<close>, lines 22 to 27: four independent comparisons of the line and
  column components.
\<close>

definition isWithin :: "IRange \<Rightarrow> IRange \<Rightarrow> bool" where
  "isWithin inner outer =
     (startLineNumber outer \<le> startLineNumber inner \<and>
      endLineNumber outer \<ge> endLineNumber inner \<and>
      startColumn outer \<le> startColumn inner \<and>
      endColumn outer \<ge> endColumn inner)"

text \<open>
  A cancelable request created by \<^verbatim>\<open>createCancelablePromise\<close>. The store
  \<open>promises\<close> of the contribution's record holds every request created so far,
  addressed by its index; \<open>currentRequest\<close> is the handle the class keeps.
\<close>

datatype promise_state = Pending | Cancelled | Fulfilled | Rejected

record CancelablePromise =
  request_position :: Position
  request_state :: promise_state

text \<open>
  The fields of the class \<^verbatim>\<open>OnTypeRenameContribution\<close> (lines 38 to 44), without
  the leading underscore, followed by the two parts of the outside world the
  class acts on besides the editor: the store of promises and the sink of
  \<^verbatim>\<open>onUnexpectedError\<close>.
\<close>

record OnTypeRenameContribution =
  editor :: ICodeEditor
  enabled :: bool
  currentRequest :: "nat option"
  currentDecorations :: "nat list"
  syncedRanges :: "IRange list option"
  promises :: "CancelablePromise list"
  unexpectedErrors :: "js_error list"

text \<open>
  The constructor, lines 46 to 54. \<^verbatim>\<open>_syncedRanges\<close> is not initialised, so
  it is \<^verbatim>\<open>undefined\<close>; \<open>None\<close> stands for both \<^verbatim>\<open>null\<close> and
  \<^verbatim>\<open>undefined\<close>.
\<close>

definition constructor :: "ICodeEditor \<Rightarrow> OnTypeRenameContribution" where
  "constructor ed =
     \<lparr>editor = ed, enabled = autoRename ed, currentRequest = None,
      currentDecorations = [], syncedRanges = None, promises = [],
      unexpectedErrors = []\<rparr>"

subsection \<open>The content-change handler\<close>

text \<open>
  \<^verbatim>\<open>new Range(l, c, l, c)\<close> with equal start and end: the constructor of
  \<^verbatim>\<open>Range\<close> only reorders a start that lies after the end, so here it stores
  its arguments.
\<close>

definition targetRange :: "IRange \<Rightarrow> int \<Rightarrow> int \<Rightarrow> IRange" where
  "targetRange second changeOffset firstStartOffset =
     \<lparr>startLineNumber = startLineNumber second,
      startColumn = startColumn second + (changeOffset - firstStartOffset),
      endLineNumber = startLineNumber second,
      endColumn = startColumn second + (changeOffset - firstStartOffset)\<rparr>"

text \<open>
  The listener of \<^verbatim>\<open>onDidChangeModelContent\<close>, lines 76 to 113. The two
  \<^verbatim>\<open>console.log\<close> calls have no effect on the state and are left out. The
  guard of line 87 accepts every array with at least one element, and lines 93
  to 98 then read \<^verbatim>\<open>this._syncedRanges[1].startLineNumber\<close>: with a single
  recorded range \<^verbatim>\<open>this._syncedRanges[1]\<close> is \<^verbatim>\<open>undefined\<close> and the
  property access throws a \<^verbatim>\<open>TypeError\<close>. Nothing has been written before
  that point, so the exception is the whole result.
\<close>

definition onDidChangeModelContent ::
  "IModelContentChangedEvent \<Rightarrow> OnTypeRenameContribution \<Rightarrow> js_error + OnTypeRenameContribution" where
  "onDidChangeModelContent e this =
     (case getModel (editor this) of
        None \<Rightarrow> Inr this
      | Some model \<Rightarrow>
          (case changes e of
             [change] \<Rightarrow>
               if rangeLength change = 0 then
                 (case syncedRanges this of
                    None \<Rightarrow> Inr this
                  | Some [] \<Rightarrow> Inr this
                  | Some (first_range # others) \<Rightarrow>
                      if isWithin (change_range change) first_range then
                        (let firstStartOffset =
                               getOffsetAt model
                                 \<lparr>lineNumber = startLineNumber first_range,
                                  column = startColumn first_range\<rparr>
                         in case others of
                              [] \<Rightarrow> Inl TypeError
                            | second # _ \<Rightarrow>
                                Inr (this\<lparr>editor :=
                                  executeEdits ''foo''
                                    [\<lparr>edit_range =
                                        targetRange second (rangeOffset change) firstStartOffset,
                                      edit_text = change_text change\<rparr>]
                                    (editor this)\<rparr>))
                      else Inr this)
               else Inr this
           | _ \<Rightarrow> Inr this))"

subsection \<open>Requests, decorations and the other listeners\<close>

text \<open>
  Modelled from the spec: \<^verbatim>\<open>createCancelablePromise\<close> and the
  \<^verbatim>\<open>cancel\<close> method of its result live in \<^verbatim>\<open>vs/base/common/async\<close>,
  and \<^verbatim>\<open>onUnexpectedError\<close> in \<^verbatim>\<open>vs/base/common/errors\<close>; neither
  file is part of the source. Sections 4.2, 5 and 7 of the specification say:
  a resolution is an in-flight, cancelable query; when it is cancelled, "no
  state change is applied from its completion" and "the result is discarded";
  "cancellation is not an error: a cancelled resolution settles silently and is
  discarded without reporting"; a resolution that fails is "reported to the
  same external sink". So a new request is pending, cancelling a pending
  request rejects it with the cancellation error, a request that is no longer
  pending never runs a callback again, and the sink drops the cancellation
  error and records every other one.
\<close>

definition set_request_state ::
  "nat \<Rightarrow> promise_state \<Rightarrow> OnTypeRenameContribution \<Rightarrow> OnTypeRenameContribution" where
  "set_request_state r s this =
     this\<lparr>promises := (promises this)[r := (promises this ! r)\<lparr>request_state := s\<rparr>]\<rparr>"

definition is_pending :: "nat \<Rightarrow> OnTypeRenameContribution \<Rightarrow> bool" where
  "is_pending r this =
     (r < length (promises this) \<and> request_state (promises this ! r) = Pending)"

definition onUnexpectedError ::
  "js_error \<Rightarrow> OnTypeRenameContribution \<Rightarrow> OnTypeRenameContribution" where
  "onUnexpectedError err this =
     (if err = Canceled then this
      else this\<lparr>unexpectedErrors := unexpectedErrors this @ [err]\<rparr>)"

definition createCancelablePromise ::
  "Position \<Rightarrow> OnTypeRenameContribution \<Rightarrow> nat \<times> OnTypeRenameContribution" where
  "createCancelablePromise position this =
     (length (promises this),
      this\<lparr>promises := promises this @
              [\<lparr>request_position = position, request_state = Pending\<rparr>]\<rparr>)"

text \<open>
  The two callbacks that \<^verbatim>\<open>_run\<close> attaches to the request, lines 142 to 149.
  \<^verbatim>\<open>!value\<close> holds for \<^verbatim>\<open>null\<close> and \<^verbatim>\<open>undefined\<close> only: an empty
  array is truthy and is recorded as it is.
\<close>

definition requestFulfilled ::
  "IRange list option \<Rightarrow> OnTypeRenameContribution \<Rightarrow> OnTypeRenameContribution" where
  "requestFulfilled value this =
     (let value' = (case value of None \<Rightarrow> [] | Some ranges \<Rightarrow> ranges);
          new_decorations = value';
          this1 = this\<lparr>syncedRanges := Some value'\<rparr>;
          (ids, ed) = deltaDecorations (currentDecorations this1) new_decorations (editor this1)
      in this1\<lparr>editor := ed, currentDecorations := ids\<rparr>)"

definition requestRejected ::
  "js_error \<Rightarrow> OnTypeRenameContribution \<Rightarrow> OnTypeRenameContribution" where
  "requestRejected err this = onUnexpectedError err this"

definition cancel :: "nat \<Rightarrow> OnTypeRenameContribution \<Rightarrow> OnTypeRenameContribution" where
  "cancel r this =
     (if is_pending r this then requestRejected Canceled (set_request_state r Cancelled this)
      else this)"

text \<open>
  The resolver's promise behind request \<open>r\<close> settles, with a value (\<open>Inr\<close>) or
  with an error (\<open>Inl\<close>).
\<close>

definition settle ::
  "nat \<Rightarrow> js_error + IRange list option \<Rightarrow> OnTypeRenameContribution \<Rightarrow> OnTypeRenameContribution" where
  "settle r outcome this =
     (if is_pending r this then
        (case outcome of
           Inr value \<Rightarrow> requestFulfilled value (set_request_state r Fulfilled this)
         | Inl err \<Rightarrow> requestRejected err (set_request_state r Rejected this))
      else this)"

text \<open>\<^verbatim>\<open>_stopAll\<close>, lines 121 to 123.\<close>

definition stopAll :: "OnTypeRenameContribution \<Rightarrow> OnTypeRenameContribution" where
  "stopAll this =
     (let (ids, ed) = deltaDecorations (currentDecorations this) [] (editor this)
      in this\<lparr>editor := ed, currentDecorations := ids\<rparr>)"

text \<open>
  \<^verbatim>\<open>_run\<close>, lines 125 to 150. The default argument
  \<^verbatim>\<open>this._editor.getPosition()\<close> is passed by the callers below. The two
  tests of line 126 both return without a write, so the model may look at the
  position first. The callbacks attached in lines 142 to 149 run when the
  request settles; they are \<open>requestFulfilled\<close> and \<open>requestRejected\<close> above.
\<close>

definition run ::
  "Position option \<Rightarrow> OnTypeRenameContribution \<Rightarrow> OnTypeRenameContribution" where
  "run position this =
     (case position of
        None \<Rightarrow> this
      | Some pos \<Rightarrow>
          if \<not> enabled this then this
          else if \<not> hasModel (editor this) then this
          else
            (let this1 = (case currentRequest this of
                            None \<Rightarrow> this
                          | Some r \<Rightarrow> (cancel r this)\<lparr>currentRequest := None\<rparr>);
                 (r, this2) = createCancelablePromise pos this1
             in this2\<lparr>currentRequest := Some r\<rparr>))"

text \<open>The listeners registered in the constructor, lines 55 to 74.\<close>

definition onDidChangeModel :: "OnTypeRenameContribution \<Rightarrow> OnTypeRenameContribution" where
  "onDidChangeModel this =
     (let this1 = stopAll this in run (getPosition (editor this1)) this1)"

text \<open>
  The argument \<open>hasChanged_autoRename\<close> is \<^verbatim>\<open>e.hasChanged(EditorOption.autoRename)\<close>;
  the editor already holds the new value of the option.
\<close>

definition onDidChangeConfiguration ::
  "bool \<Rightarrow> OnTypeRenameContribution \<Rightarrow> OnTypeRenameContribution" where
  "onDidChangeConfiguration hasChanged_autoRename this =
     (if hasChanged_autoRename then
        (let this1 = this\<lparr>enabled := autoRename (editor this)\<rparr>;
             this2 = stopAll this1
         in run (getPosition (editor this2)) this2)
      else this)"

definition onDidChangeCursorPosition ::
  "Position \<Rightarrow> OnTypeRenameContribution \<Rightarrow> OnTypeRenameContribution" where
  "onDidChangeCursorPosition position this = run (Some position) this"

definition onRegistryDidChange :: "OnTypeRenameContribution \<Rightarrow> OnTypeRenameContribution" where
  "onRegistryDidChange this = run (getPosition (editor this)) this"

subsection \<open>Events\<close>

text \<open>
  One event is one change of the outside world together with the listener it
  fires. A content change carries the offset function of the document after
  the change. An exception leaves a JavaScript object as it was when the
  exception was thrown; the one throwing path of the content-change listener
  writes nothing before it throws.
\<close>

datatype event =
    DidChangeModel "ITextModel option"
  | DidChangeConfiguration bool
  | DidChangeCursorPosition Position
  | RegistryDidChange
  | DidChangeModelContent "Position \<Rightarrow> int" IModelContentChangedEvent
  | RequestSettled nat "js_error + IRange list option"

fun deliver :: "event \<Rightarrow> OnTypeRenameContribution \<Rightarrow> OnTypeRenameContribution" where
  "deliver (DidChangeModel m) this =
     onDidChangeModel (this\<lparr>editor := (editor this)\<lparr>getModel := m\<rparr>\<rparr>)"
| "deliver (DidChangeConfiguration b) this =
     onDidChangeConfiguration (autoRename (editor this) \<noteq> b)
       (this\<lparr>editor := (editor this)\<lparr>autoRename := b\<rparr>\<rparr>)"
| "deliver (DidChangeCursorPosition p) this =
     onDidChangeCursorPosition p (this\<lparr>editor := (editor this)\<lparr>getPosition := Some p\<rparr>\<rparr>)"
| "deliver RegistryDidChange this = onRegistryDidChange this"
| "deliver (DidChangeModelContent offsets e) this =
     (let this0 = this\<lparr>editor := (editor this)
                    \<lparr>getModel := map_option (\<lambda>m. m\<lparr>getOffsetAt := offsets\<rparr>)
                                   (getModel (editor this))\<rparr>\<rparr>
      in case onDidChangeModelContent e this0 of
           Inl err \<Rightarrow> this0
         | Inr this' \<Rightarrow> this')"
| "deliver (RequestSettled r outcome) this = settle r outcome this"

fun run_events :: "event list \<Rightarrow> OnTypeRenameContribution \<Rightarrow> OnTypeRenameContribution" where
  "run_events [] this = this"
| "run_events (ev # evs) this = run_events evs (deliver ev this)"

text \<open>
  The states of section 4.2 of the specification, read off the fields: the
  contribution is synced when the guard of line 87 holds, resolving when a
  request is pending, and idle otherwise.
\<close>

definition isSynced :: "OnTypeRenameContribution \<Rightarrow> bool" where
  "isSynced this = (case syncedRanges this of None \<Rightarrow> False | Some ranges \<Rightarrow> 0 < length ranges)"

definition pending_requests :: "OnTypeRenameContribution \<Rightarrow> nat list" where
  "pending_requests this =
     filter (\<lambda>r. request_state (promises this ! r) = Pending) [0..<length (promises this)]"

definition isIdle :: "OnTypeRenameContribution \<Rightarrow> bool" where
  "isIdle this = (\<not> isSynced this \<and> pending_requests this = [])"

text \<open>
  The slot discipline of section 5 of the specification: a request that is
  still pending is the one the contribution holds in \<open>currentRequest\<close>.
\<close>

definition single_slot :: "OnTypeRenameContribution \<Rightarrow> bool" where
  "single_slot this = (\<forall>r. is_pending r this \<longrightarrow> currentRequest this = Some r)"

section \<open>The resolver\<close>

text \<open>
  What one call \<^verbatim>\<open>provider.provideOnTypeRenameRanges(model, position, token)\<close>
  comes to. The provider returns a value or a thenable, and
  \<^verbatim>\<open>Promise.resolve\<close> makes of either a promise that resolves with an array,
  with \<^verbatim>\<open>null\<close> or with \<^verbatim>\<open>undefined\<close> (\<open>None\<close>), or a promise that rejects
  with an error; or the call itself throws. A provider is given the document,
  the position and the token; of the token it can read whether cancellation has
  been requested.
\<close>

datatype provider_outcome =
    Resolves "IRange list option"
  | Rejects js_error
  | Throws js_error

record OnTypeRenameProvider =
  providerId :: nat
  provideOnTypeRenameRanges :: "ITextModel \<Rightarrow> Position \<Rightarrow> bool \<Rightarrow> provider_outcome"

record registry_entry =
  entry_score :: int
  entry_provider :: OnTypeRenameProvider

text \<open>
  A token is cancelled by its owner while the resolver is suspended. The field
  \<open>cancelAfter\<close> fixes when: \<open>Some k\<close> says that the request for cancellation
  arrives once \<open>k\<close> providers have been invoked, \<open>None\<close> that it never arrives
  (\<^verbatim>\<open>CancellationToken.None\<close>).
\<close>

record CancellationToken =
  cancelAfter :: "nat option"

definition CancellationToken_None :: CancellationToken where
  "CancellationToken_None = \<lparr>cancelAfter = None\<rparr>"

definition cancelledAt :: "CancellationToken \<Rightarrow> nat \<Rightarrow> bool" where
  "cancelledAt token n = (case cancelAfter token of None \<Rightarrow> False | Some k \<Rightarrow> k \<le> n)"

text \<open>
  The world of one resolution: which providers have been invoked, each with
  the state of the token it was handed, and what has been reported to the sink
  of \<^verbatim>\<open>onUnexpectedExternalError\<close>.
\<close>

record resolver_world =
  invoked :: "(nat \<times> bool) list"
  externalErrors :: "js_error list"

definition new_world :: resolver_world where
  "new_world = \<lparr>invoked = [], externalErrors = []\<rparr>"

definition isCancellationRequested :: "CancellationToken \<Rightarrow> resolver_world \<Rightarrow> bool" where
  "isCancellationRequested token w = cancelledAt token (length (invoked w))"

text \<open>
  Modelled from the spec: \<^verbatim>\<open>onUnexpectedExternalError\<close> of
  \<^verbatim>\<open>vs/base/common/errors\<close> is not part of the source. Sections 4.1 and 7:
  the error "is reported to an external unexpected-error sink (fire-and-forget)
  rather than propagated to the caller" and is "treated as empty result for
  that provider". The handler therefore records the error and the promise
  resolves with no value.
\<close>

definition onUnexpectedExternalError ::
  "js_error \<Rightarrow> resolver_world \<Rightarrow> IRange list option \<times> resolver_world" where
  "onUnexpectedExternalError err w = (None, w\<lparr>externalErrors := externalErrors w @ [err]\<rparr>)"

text \<open>
  Modelled from the spec: \<^verbatim>\<open>arrays.isNonEmptyArray\<close> of
  \<^verbatim>\<open>vs/base/common/arrays\<close> is not part of the source. Section 4.1: a result
  is accepted "if and only if it is a non-empty sequence of ranges".
\<close>

definition isNonEmptyArray :: "IRange list option \<Rightarrow> bool" where
  "isNonEmptyArray v = (case v of None \<Rightarrow> False | Some ranges \<Rightarrow> ranges \<noteq> [])"

text \<open>
  Modelled from the spec: \<^verbatim>\<open>first\<close> of \<^verbatim>\<open>vs/base/common/async\<close> is not part
  of the source. The call in lines 160 to 163 hands it the list of factories and
  the predicate, nothing else. Section 4.1: the factories are run "strictly in
  that order, one at a time, short-circuiting"; a result the predicate accepts
  is the final answer; "if no provider yields a non-empty result, returns
  no-result". The specification describes no handler inside \<^verbatim>\<open>first\<close>: errors
  are "caught per-provider", which is the handler the source attaches in line
  162. So an exception that leaves a factory ends the run: it is the outcome of
  \<^verbatim>\<open>first\<close> (\<open>Inl\<close>: thrown to the caller, or the rejection of the promise
  returned to it) and no further factory is run.
\<close>

fun first ::
  "('w \<Rightarrow> ('e + 'a option) \<times> 'w) list \<Rightarrow> ('a option \<Rightarrow> bool) \<Rightarrow> 'w \<Rightarrow>
   ('e + 'a option) \<times> 'w" where
  "first [] shouldStop w = (Inr None, w)"
| "first (factory # factories) shouldStop w =
     (case factory w of
        (Inl err, w') \<Rightarrow> (Inl err, w')
      | (Inr result, w') \<Rightarrow>
          if shouldStop result then (Inr result, w') else first factories shouldStop w')"

text \<open>
  Modelled from the spec: \<^verbatim>\<open>OnTypeRenameProviderRegistry.ordered\<close> of
  \<^verbatim>\<open>vs/editor/common/modes\<close> is not part of the source. Section 4.1: it
  "obtains the list of registered providers applicable to the document, ordered
  by descending priority/score (ties broken by registration order - stable
  sort)". The registry is the list of the applicable entries in registration
  order, each with its score for the document.
\<close>

definition ordered_entries :: "registry_entry list \<Rightarrow> registry_entry list" where
  "ordered_entries registry = sort_key (\<lambda>entry. - entry_score entry) registry"

definition ordered :: "registry_entry list \<Rightarrow> OnTypeRenameProvider list" where
  "ordered registry = map entry_provider (ordered_entries registry)"

text \<open>
  The factory built for one provider in lines 160 to 163,
  \<^verbatim>\<open>() => Promise.resolve(provider.provideOnTypeRenameRanges(model, position, token)).then(undefined, onUnexpectedExternalError)\<close>.
  The call of the provider is the argument of \<^verbatim>\<open>Promise.resolve\<close>: it is
  evaluated first, outside any \<^verbatim>\<open>try\<close>. When it throws, no promise exists
  yet, the handler of line 162 is never attached, nothing is reported, and the
  exception leaves the factory. When it returns, the handler is attached, and
  a rejection is reported to the sink and replaced by no value.
\<close>

definition provider_factory ::
  "ITextModel \<Rightarrow> Position \<Rightarrow> CancellationToken \<Rightarrow> OnTypeRenameProvider \<Rightarrow>
   resolver_world \<Rightarrow> (js_error + IRange list option) \<times> resolver_world" where
  "provider_factory model position token provider w =
     (let cancelled = isCancellationRequested token w;
          w1 = w\<lparr>invoked := invoked w @ [(providerId provider, cancelled)]\<rparr>
      in case provideOnTypeRenameRanges provider model position cancelled of
           Throws err \<Rightarrow> (Inl err, w1)
         | Resolves v \<Rightarrow> (Inr v, w1)
         | Rejects err \<Rightarrow>
             (case onUnexpectedExternalError err w1 of (v, w2) \<Rightarrow> (Inr v, w2)))"

text \<open>
  \<^verbatim>\<open>getOnTypeRenameRanges\<close>, lines 153 to 164. \<open>Inr\<close> is the value its promise
  resolves with, \<open>Inl\<close> the error it ends with instead.
\<close>

definition getOnTypeRenameRanges ::
  "registry_entry list \<Rightarrow> ITextModel \<Rightarrow> Position \<Rightarrow> CancellationToken \<Rightarrow>
   resolver_world \<Rightarrow> (js_error + IRange list option) \<times> resolver_world" where
  "getOnTypeRenameRanges registry model position token w =
     (let orderedByScore = ordered registry
      in first (map (provider_factory model position token) orderedByScore) isNonEmptyArray w)"

text \<open>
  What the provider in slot \<open>i\<close> of an ordered list does when the resolver
  reaches it, after \<open>n0\<close> earlier invocations: the value its factory's promise
  resolves with (no value after a rejection), the error it throws, if it
  throws, the entry its invocation leaves in the trace, and the error it
  reports to the sink (only a rejection is reported).
\<close>

definition slot_value ::
  "ITextModel \<Rightarrow> Position \<Rightarrow> CancellationToken \<Rightarrow> nat \<Rightarrow> OnTypeRenameProvider list \<Rightarrow> nat \<Rightarrow>
   IRange list option" where
  "slot_value model position token n0 ps i =
     (case provideOnTypeRenameRanges (ps ! i) model position (cancelledAt token (n0 + i)) of
        Resolves v \<Rightarrow> v
      | Rejects err \<Rightarrow> None
      | Throws err \<Rightarrow> None)"

definition slot_thrown ::
  "ITextModel \<Rightarrow> Position \<Rightarrow> CancellationToken \<Rightarrow> nat \<Rightarrow> OnTypeRenameProvider list \<Rightarrow> nat \<Rightarrow>
   js_error option" where
  "slot_thrown model position token n0 ps i =
     (case provideOnTypeRenameRanges (ps ! i) model position (cancelledAt token (n0 + i)) of
        Resolves v \<Rightarrow> None
      | Rejects err \<Rightarrow> None
      | Throws err \<Rightarrow> Some err)"

definition slot_call ::
  "CancellationToken \<Rightarrow> nat \<Rightarrow> OnTypeRenameProvider list \<Rightarrow> nat \<Rightarrow> nat \<times> bool" where
  "slot_call token n0 ps i = (providerId (ps ! i), cancelledAt token (n0 + i))"

definition slot_errors ::
  "ITextModel \<Rightarrow> Position \<Rightarrow> CancellationToken \<Rightarrow> nat \<Rightarrow> OnTypeRenameProvider list \<Rightarrow> nat \<Rightarrow>
   js_error list" where
  "slot_errors model position token n0 ps i =
     (case provideOnTypeRenameRanges (ps ! i) model position (cancelledAt token (n0 + i)) of
        Resolves v \<Rightarrow> []
      | Rejects err \<Rightarrow> [err]
      | Throws err \<Rightarrow> [])"

text \<open>
  A slot passes when its provider does not throw and its value is not
  accepted; the run goes on to the next slot exactly then.
\<close>

definition slot_passes ::
  "ITextModel \<Rightarrow> Position \<Rightarrow> CancellationToken \<Rightarrow> nat \<Rightarrow> OnTypeRenameProvider list \<Rightarrow> nat \<Rightarrow>
   bool" where
  "slot_passes model position token n0 ps i =
     (slot_thrown model position token n0 ps i = None \<and>
      \<not> isNonEmptyArray (slot_value model position token n0 ps i))"

definition stopping_slot ::
  "ITextModel \<Rightarrow> Position \<Rightarrow> CancellationToken \<Rightarrow> nat \<Rightarrow> OnTypeRenameProvider list \<Rightarrow> nat \<Rightarrow>
   bool" where
  "stopping_slot model position token n0 ps i =
     (i < length ps \<and> \<not> slot_passes model position token n0 ps i)"

text \<open>
  The outcome of the run when slot \<open>i\<close> is the one it stops at: the error
  thrown there, or else the value of the slot.
\<close>

definition slot_result ::
  "ITextModel \<Rightarrow> Position \<Rightarrow> CancellationToken \<Rightarrow> nat \<Rightarrow> OnTypeRenameProvider list \<Rightarrow> nat \<Rightarrow>
   js_error + IRange list option" where
  "slot_result model position token n0 ps i =
     (case slot_thrown model position token n0 ps i of
        Some err \<Rightarrow> Inl err
      | None \<Rightarrow> Inr (slot_value model position token n0 ps i))"

section \<open>The specification's wording of eligibility\<close>

text \<open>
  These definitions follow the words of section 4.2 of the specification, not
  the code: a position lies within a span, both boundaries included, when it is
  not before the start and not after the end in document order; an event is
  eligible when it holds exactly one change, the change deletes nothing, and
  the replaced (empty) span lies within the span of the primary range.
\<close>

definition getStartPosition :: "IRange \<Rightarrow> Position" where
  "getStartPosition r = \<lparr>lineNumber = startLineNumber r, column = startColumn r\<rparr>"

definition getEndPosition :: "IRange \<Rightarrow> Position" where
  "getEndPosition r = \<lparr>lineNumber = endLineNumber r, column = endColumn r\<rparr>"

definition isBeforeOrEqual :: "Position \<Rightarrow> Position \<Rightarrow> bool" where
  "isBeforeOrEqual p q =
     (lineNumber p < lineNumber q \<or> (lineNumber p = lineNumber q \<and> column p \<le> column q))"

definition spec_withinSpan :: "IRange \<Rightarrow> IRange \<Rightarrow> bool" where
  "spec_withinSpan inner outer =
     (isBeforeOrEqual (getStartPosition outer) (getStartPosition inner) \<and>
      isBeforeOrEqual (getEndPosition inner) (getEndPosition outer))"

definition spec_eligible :: "IModelContentChangedEvent \<Rightarrow> OnTypeRenameContribution \<Rightarrow> bool" where
  "spec_eligible e this =
     (case changes e of
        [change] \<Rightarrow>
          rangeLength change = 0 \<and>
          (case syncedRanges this of
             Some (primary # mirrors) \<Rightarrow> spec_withinSpan (change_range change) primary
           | _ \<Rightarrow> False)
      | _ \<Rightarrow> False)"

section \<open>Concrete inputs\<close>

text \<open>
  The example of section 8 of the specification: a primary range \<open>[L1:5, L1:10)\<close>,
  a mirror range \<open>[L5:2, L5:7)\<close>, and a document whose lines all take twenty
  offsets. A third range on line 9 is used where more than one mirror matters.
\<close>

definition example_model :: ITextModel where
  "example_model = \<lparr>getOffsetAt = (\<lambda>p. (lineNumber p - 1) * 20 + (column p - 1))\<rparr>"

definition example_primary :: IRange where
  "example_primary = \<lparr>startLineNumber = 1, startColumn = 5, endLineNumber = 1, endColumn = 10\<rparr>"

definition example_mirror :: IRange where
  "example_mirror = \<lparr>startLineNumber = 5, startColumn = 2, endLineNumber = 5, endColumn = 7\<rparr>"

definition example_third :: IRange where
  "example_third = \<lparr>startLineNumber = 9, startColumn = 3, endLineNumber = 9, endColumn = 8\<rparr>"

definition example_editor :: "IRange list \<Rightarrow> ICodeEditor" where
  "example_editor ranges =
     \<lparr>getModel = Some example_model,
      getPosition = Some \<lparr>lineNumber = 1, column = 7\<rparr>,
      autoRename = True,
      decorations = zip [0..<length ranges] ranges,
      nextDecorationId = length ranges,
      deltaDecorationsCalls = [([], ranges)],
      executedEdits = []\<rparr>"

text \<open>
  A contribution whose one request has been fulfilled with \<open>ranges\<close>, and the
  same contribution with a second request still in flight.
\<close>

definition example_synced :: "IRange list \<Rightarrow> OnTypeRenameContribution" where
  "example_synced ranges =
     \<lparr>editor = example_editor ranges, enabled = True, currentRequest = Some 0,
      currentDecorations = [0..<length ranges], syncedRanges = Some ranges,
      promises = [\<lparr>request_position = \<lparr>lineNumber = 1, column = 7\<rparr>,
                   request_state = Fulfilled\<rparr>],
      unexpectedErrors = []\<rparr>"

definition example_resolving :: "IRange list \<Rightarrow> OnTypeRenameContribution" where
  "example_resolving ranges =
     (example_synced ranges)
       \<lparr>currentRequest := Some 1,
        promises := promises (example_synced ranges) @
          [\<lparr>request_position = \<lparr>lineNumber = 1, column = 8\<rparr>, request_state = Pending\<rparr>]\<rparr>"

definition insertion_at :: "int \<Rightarrow> int \<Rightarrow> string \<Rightarrow> IModelContentChange" where
  "insertion_at l c s =
     \<lparr>change_range = \<lparr>startLineNumber = l, startColumn = c, endLineNumber = l, endColumn = c\<rparr>,
      rangeOffset = getOffsetAt example_model \<lparr>lineNumber = l, column = c\<rparr>,
      rangeLength = 0, change_text = s\<rparr>"

definition deletion_at :: "int \<Rightarrow> int \<Rightarrow> IModelContentChange" where
  "deletion_at l c =
     \<lparr>change_range = \<lparr>startLineNumber = l, startColumn = c, endLineNumber = l, endColumn = c + 1\<rparr>,
      rangeOffset = getOffsetAt example_model \<lparr>lineNumber = l, column = c\<rparr>,
      rangeLength = 1, change_text = []\<rparr>"

text \<open>
  A first range that spans lines 1 to 3, for an insertion in the middle line.
\<close>

definition example_multiline :: IRange where
  "example_multiline = \<lparr>startLineNumber = 1, startColumn = 5, endLineNumber = 3, endColumn = 10\<rparr>"

text \<open>
  Four providers: one that always answers with an empty array, one that
  always answers with the two example ranges whatever the token says, one
  whose promise always rejects, and one whose call always throws. In every
  registry the provider registered second has the higher score.
\<close>

definition provider_empty :: OnTypeRenameProvider where
  "provider_empty =
     \<lparr>providerId = 1,
      provideOnTypeRenameRanges = (\<lambda>model position cancelled. Resolves (Some []))\<rparr>"

definition provider_pair :: OnTypeRenameProvider where
  "provider_pair =
     \<lparr>providerId = 2,
      provideOnTypeRenameRanges =
        (\<lambda>model position cancelled. Resolves (Some [example_primary, example_mirror]))\<rparr>"

definition provider_failing :: OnTypeRenameProvider where
  "provider_failing =
     \<lparr>providerId = 3,
      provideOnTypeRenameRanges =
        (\<lambda>model position cancelled. Rejects (Failure ''provider failed''))\<rparr>"

definition provider_throwing :: OnTypeRenameProvider where
  "provider_throwing =
     \<lparr>providerId = 4,
      provideOnTypeRenameRanges =
        (\<lambda>model position cancelled. Throws (Failure ''provider threw''))\<rparr>"

definition example_registry :: "registry_entry list" where
  "example_registry =
     [\<lparr>entry_score = 5, entry_provider = provider_pair\<rparr>,
      \<lparr>entry_score = 10, entry_provider = provider_empty\<rparr>]"

definition failing_registry :: "registry_entry list" where
  "failing_registry =
     [\<lparr>entry_score = 5, entry_provider = provider_pair\<rparr>,
      \<lparr>entry_score = 10, entry_provider = provider_failing\<rparr>]"

definition throwing_registry :: "registry_entry list" where
  "throwing_registry =
     [\<lparr>entry_score = 5, entry_provider = provider_pair\<rparr>,
      \<lparr>entry_score = 10, entry_provider = provider_throwing\<rparr>]"

definition throwing_empty_registry :: "registry_entry list" where
  "throwing_empty_registry =
     [\<lparr>entry_score = 5, entry_provider = provider_empty\<rparr>,
      \<lparr>entry_score = 10, entry_provider = provider_throwing\<rparr>]"

lemmas example_defs =
  example_model_def example_primary_def example_mirror_def example_third_def
  example_multiline_def
  example_editor_def example_synced_def example_resolving_def insertion_at_def deletion_at_def

section \<open>The content-change handler: what is mirrored, and when\<close>

lemma isWithin_spec_withinSpan: "isWithin inner outer \<Longrightarrow> spec_withinSpan inner outer"
  by (auto simp: isWithin_def spec_withinSpan_def isBeforeOrEqual_def
      getStartPosition_def getEndPosition_def)

lemma stopAll_fields [simp]:
  "promises (stopAll this) = promises this"
  "currentRequest (stopAll this) = currentRequest this"
  "syncedRanges (stopAll this) = syncedRanges this"
  "enabled (stopAll this) = enabled this"
  "unexpectedErrors (stopAll this) = unexpectedErrors this"
  "currentDecorations (stopAll this) = []"
  "getModel (editor (stopAll this)) = getModel (editor this)"
  "executedEdits (editor (stopAll this)) = executedEdits (editor this)"
  by (simp_all add: stopAll_def deltaDecorations_def Let_def)




text \<open>
  C2. An event that is not eligible in the specification's sense (it does not
  hold exactly one change, or the change deletes something, or there is no
  primary range, or the replaced span does not lie within the primary range's
  span with both boundaries included) triggers no mirrored edit: the handler
  returns normally and leaves the contribution and the editor exactly as they
  were. Read the other way round, an edit is mirrored only if the event is
  eligible.
\<close>

theorem not_eligible_not_mirrored:
  assumes "\<not> spec_eligible e this"
  shows "onDidChangeModelContent e this = Inr this"
  using assms isWithin_spec_withinSpan
  by (auto simp: onDidChangeModelContent_def spec_eligible_def split: option.splits list.splits)

theorem not_eligible_not_mirrored_witness:
  "\<not> spec_eligible \<lparr>changes = [insertion_at 1 12 ''x'']\<rparr>
        (example_synced [example_primary, example_mirror]) \<and>
   onDidChangeModelContent \<lparr>changes = [insertion_at 1 12 ''x'']\<rparr>
       (example_synced [example_primary, example_mirror]) =
     Inr (example_synced [example_primary, example_mirror])"
  using not_eligible_not_mirrored
    [of "\<lparr>changes = [insertion_at 1 12 ''x'']\<rparr>"
        "example_synced [example_primary, example_mirror]"]
  by (simp add: spec_eligible_def spec_withinSpan_def isBeforeOrEqual_def getStartPosition_def
      getEndPosition_def example_defs)

text \<open>
  C3, as amended. When the contribution is synced and the event is not
  mirrorable (it does not hold exactly one change, or its one change deletes
  characters, or the change's range fails \<^verbatim>\<open>isWithin\<close> against the first
  recorded range), the handler returns normally and changes nothing: no edit is
  executed, and the recorded range set and the decorations stay as they were, so
  the contribution is still synced.
\<close>

theorem not_mirrorable_changes_nothing:
  assumes "isSynced this"
      and "length (changes e) \<noteq> 1 \<or>
           (\<exists>change primary others.
              changes e = [change] \<and> syncedRanges this = Some (primary # others) \<and>
              (rangeLength change \<noteq> 0 \<or> \<not> isWithin (change_range change) primary))"
  shows "onDidChangeModelContent e this = Inr this"
  using assms
  by (auto simp: onDidChangeModelContent_def isSynced_def split: option.splits list.splits)

theorem not_mirrorable_changes_nothing_witness:
  "isSynced (example_synced [example_primary, example_mirror]) \<and>
   rangeLength (deletion_at 1 7) \<noteq> 0 \<and>
   onDidChangeModelContent \<lparr>changes = [deletion_at 1 7]\<rparr>
       (example_synced [example_primary, example_mirror]) =
     Inr (example_synced [example_primary, example_mirror])"
  using not_mirrorable_changes_nothing
    [of "example_synced [example_primary, example_mirror]" "\<lparr>changes = [deletion_at 1 7]\<rparr>"]
  by (simp add: isSynced_def example_synced_def deletion_at_def)

text \<open>
  C3 as stated fails. After a deletion inside the primary range the
  contribution is what it was: the two ranges are still recorded, the two
  decorations are still held, and the contribution is synced, not idle.
\<close>

theorem not_mirrorable_goes_idle_counterexample:
  "onDidChangeModelContent \<lparr>changes = [deletion_at 1 7]\<rparr>
       (example_synced [example_primary, example_mirror]) =
     Inr (example_synced [example_primary, example_mirror]) \<and>
   syncedRanges (example_synced [example_primary, example_mirror]) =
     Some [example_primary, example_mirror] \<and>
   currentDecorations (example_synced [example_primary, example_mirror]) = [0, 1] \<and>
   isSynced (example_synced [example_primary, example_mirror]) \<and>
   \<not> isIdle (example_synced [example_primary, example_mirror])"
  by (simp add: onDidChangeModelContent_def example_synced_def example_editor_def
      deletion_at_def isSynced_def isIdle_def upt_rec)

text \<open>
  C9: the failing input. The cursor moves, the resolution settles with a single
  range, and that one range is recorded. Then a single pure insertion arrives
  inside it. The guard of line 87 lets the singleton through, and the read of
  \<^verbatim>\<open>this._syncedRanges[1].startLineNumber\<close> throws.
\<close>

theorem singleton_insertion_throws:
  "syncedRanges (run_events [DidChangeCursorPosition \<lparr>lineNumber = 1, column = 7\<rparr>,
                             RequestSettled 0 (Inr (Some [example_primary]))]
                   (constructor (example_editor []))) = Some [example_primary] \<and>
   onDidChangeModelContent \<lparr>changes = [insertion_at 1 7 ''x'']\<rparr>
       (run_events [DidChangeCursorPosition \<lparr>lineNumber = 1, column = 7\<rparr>,
                    RequestSettled 0 (Inr (Some [example_primary]))]
          (constructor (example_editor []))) = Inl TypeError"
  by (simp add: constructor_def onDidChangeCursorPosition_def run_def hasModel_def
      createCancelablePromise_def settle_def is_pending_def set_request_state_def
      requestFulfilled_def deltaDecorations_def Let_def
      onDidChangeModelContent_def example_defs isWithin_def)

section \<open>Disabling the feature\<close>

text \<open>
  C8, as amended. When the option is switched off, in any state, the listener
  sets the enabled flag to false and clears the decorations with one
  \<^verbatim>\<open>deltaDecorations\<close> call whose target set is empty; it starts no new
  resolution. Every other field is left as it was; in particular the recorded
  range set is not cleared.
\<close>

theorem disable_clears_decorations_only:
  assumes "autoRename (editor this)"
  shows "deliver (DidChangeConfiguration False) this =
           this\<lparr>editor := (editor this)
                  \<lparr>autoRename := False,
                   decorations :=
                     filter (\<lambda>d. fst d \<notin> set (currentDecorations this)) (decorations (editor this)),
                   deltaDecorationsCalls :=
                     deltaDecorationsCalls (editor this) @ [(currentDecorations this, [])]\<rparr>,
                enabled := False,
                currentDecorations := []\<rparr>"
  using assms
  by (simp add: onDidChangeConfiguration_def stopAll_def run_def deltaDecorations_def Let_def
      split: option.splits)

theorem disable_clears_decorations_only_witness:
  "autoRename (editor (example_resolving [example_primary, example_mirror])) \<and>
   deliver (DidChangeConfiguration False) (example_resolving [example_primary, example_mirror]) =
     (example_resolving [example_primary, example_mirror])
       \<lparr>editor := (example_editor [example_primary, example_mirror])
          \<lparr>autoRename := False,
           decorations := [],
           deltaDecorationsCalls :=
             [([], [example_primary, example_mirror]), ([0, 1], [])]\<rparr>,
        enabled := False,
        currentDecorations := []\<rparr>"
  using disable_clears_decorations_only [of "example_resolving [example_primary, example_mirror]"]
  by (simp add: example_resolving_def example_synced_def example_editor_def upt_rec)

text \<open>
  C8 as stated fails. The contribution holds two ranges and has request 1 in
  flight when the option is switched off. Afterwards the two ranges are still
  recorded and request 1 is still pending: the contribution is not idle.
\<close>

theorem disable_goes_idle_counterexample:
  "syncedRanges (deliver (DidChangeConfiguration False)
       (example_resolving [example_primary, example_mirror])) =
     Some [example_primary, example_mirror] \<and>
   pending_requests (deliver (DidChangeConfiguration False)
       (example_resolving [example_primary, example_mirror])) = [1] \<and>
   \<not> isIdle (deliver (DidChangeConfiguration False)
       (example_resolving [example_primary, example_mirror]))"
  by (simp add: onDidChangeConfiguration_def stopAll_def run_def deltaDecorations_def Let_def
      example_resolving_def example_synced_def example_editor_def
      pending_requests_def isIdle_def isSynced_def upt_rec)

text \<open>
  C10, as amended. The content-change handler never reads the enabled flag, and
  \<^verbatim>\<open>_stopAll\<close> leaves the recorded range set alone. So in every state that
  holds at least two recorded ranges (and a document), after the option has been
  switched off the contribution is disabled and yet a single pure insertion
  whose range passes \<^verbatim>\<open>isWithin\<close> against the first range (line bounds and
  column bounds compared separately) is mirrored to the second range.
\<close>

theorem mirroring_survives_disable:
  assumes "autoRename (editor this)"
      and "getModel (editor this) = Some model"
      and "syncedRanges this = Some (first_range # second # others)"
      and "changes e = [change]"
      and "rangeLength change = 0"
      and "isWithin (change_range change) first_range"
  shows "onDidChangeModelContent e (this\<lparr>enabled := b\<rparr>) =
           map_sum id (\<lambda>this'. this'\<lparr>enabled := b\<rparr>) (onDidChangeModelContent e this) \<and>
         syncedRanges (stopAll this) = syncedRanges this \<and>
         \<not> enabled (deliver (DidChangeConfiguration False) this) \<and>
         onDidChangeModelContent e (deliver (DidChangeConfiguration False) this) =
           Inr ((deliver (DidChangeConfiguration False) this)
             \<lparr>editor := executeEdits ''foo''
                 [\<lparr>edit_range = targetRange second (rangeOffset change)
                     (getOffsetAt model (getStartPosition first_range)),
                   edit_text = change_text change\<rparr>]
                 (editor (deliver (DidChangeConfiguration False) this))\<rparr>)"
proof -
  let ?off = "deliver (DidChangeConfiguration False) this"
  have flag: "onDidChangeModelContent e (this\<lparr>enabled := b\<rparr>) =
           map_sum id (\<lambda>this'. this'\<lparr>enabled := b\<rparr>) (onDidChangeModelContent e this)"
    using assms(2-6) by (simp add: onDidChangeModelContent_def)
  have off: "syncedRanges ?off = syncedRanges this" "getModel (editor ?off) = Some model"
    "\<not> enabled ?off"
    using assms(1,2)
    by (simp_all add: onDidChangeConfiguration_def run_def Let_def split: option.splits)
  have "onDidChangeModelContent e ?off =
           Inr (?off\<lparr>editor := executeEdits ''foo''
                 [\<lparr>edit_range = targetRange second (rangeOffset change)
                     (getOffsetAt model (getStartPosition first_range)),
                   edit_text = change_text change\<rparr>]
                 (editor ?off)\<rparr>)"
    using off(1,2) assms(3-6)
    by (simp add: onDidChangeModelContent_def getStartPosition_def del: deliver.simps)
  then show ?thesis using flag off(3) by simp
qed

theorem mirroring_survives_disable_witness:
  "autoRename (editor (example_synced [example_primary, example_mirror])) \<and>
   isWithin (change_range (insertion_at 1 7 ''x'')) example_primary \<and>
   \<not> enabled (deliver (DidChangeConfiguration False)
        (example_synced [example_primary, example_mirror])) \<and>
   executedEdits (editor (projr (onDidChangeModelContent \<lparr>changes = [insertion_at 1 7 ''x'']\<rparr>
       (deliver (DidChangeConfiguration False)
          (example_synced [example_primary, example_mirror]))))) =
     [(''foo'', [\<lparr>edit_range = \<lparr>startLineNumber = 5, startColumn = 4,
                                endLineNumber = 5, endColumn = 4\<rparr>,
                 edit_text = ''x''\<rparr>])]"
  using mirroring_survives_disable
    [of "example_synced [example_primary, example_mirror]" example_model
        example_primary example_mirror "[]"
        "\<lparr>changes = [insertion_at 1 7 ''x'']\<rparr>" "insertion_at 1 7 ''x''" False]
  by (simp add: example_defs isWithin_def getStartPosition_def targetRange_def executeEdits_def
      onDidChangeConfiguration_def stopAll_def run_def deltaDecorations_def Let_def)

text \<open>
  C10 as stated fails where "inside the first range" is meant in document
  order. The first recorded range runs from \<open>L1:5\<close> to \<open>L3:10\<close>; the feature
  is switched off; a single pure insertion arrives at \<open>L2:1\<close>, which lies
  within the span of the first range. Its column is below the range's start
  column, so \<^verbatim>\<open>isWithin\<close> fails: the handler leaves everything as it was and
  no edit is executed.
\<close>

theorem inside_first_range_not_mirrored_counterexample:
  "rangeLength (insertion_at 2 1 ''x'') = 0 \<and>
   spec_withinSpan (change_range (insertion_at 2 1 ''x'')) example_multiline \<and>
   syncedRanges (deliver (DidChangeConfiguration False)
       (example_synced [example_multiline, example_mirror])) =
     Some [example_multiline, example_mirror] \<and>
   onDidChangeModelContent \<lparr>changes = [insertion_at 2 1 ''x'']\<rparr>
       (deliver (DidChangeConfiguration False)
          (example_synced [example_multiline, example_mirror])) =
     Inr (deliver (DidChangeConfiguration False)
            (example_synced [example_multiline, example_mirror])) \<and>
   executedEdits (editor (deliver (DidChangeConfiguration False)
       (example_synced [example_multiline, example_mirror]))) = []"
  by (simp add: onDidChangeConfiguration_def stopAll_def run_def deltaDecorations_def Let_def
      onDidChangeModelContent_def isWithin_def spec_withinSpan_def isBeforeOrEqual_def
      getStartPosition_def getEndPosition_def example_defs)

section \<open>Resolutions in flight\<close>

lemma is_pending_promises:
  "promises this' = promises this \<Longrightarrow> is_pending r this' = is_pending r this"
  by (simp add: is_pending_def)

lemma is_pending_set_request_state:
  "s \<noteq> Pending \<Longrightarrow>
   is_pending r' (set_request_state r s this) = (is_pending r' this \<and> r' \<noteq> r)"
  by (cases "r' = r") (auto simp: is_pending_def set_request_state_def)

lemma requestFulfilled_fields [simp]:
  "promises (requestFulfilled v this) = promises this"
  "currentRequest (requestFulfilled v this) = currentRequest this"
  by (simp_all add: requestFulfilled_def deltaDecorations_def Let_def)

lemma requestRejected_fields [simp]:
  "promises (requestRejected err this) = promises this"
  "currentRequest (requestRejected err this) = currentRequest this"
  by (simp_all add: requestRejected_def onUnexpectedError_def)

lemma currentRequest_set_request_state [simp]:
  "currentRequest (set_request_state r s this) = currentRequest this"
  by (simp add: set_request_state_def)

lemma cancel_fields [simp]:
  "currentRequest (cancel r this) = currentRequest this"
  "length (promises (cancel r this)) = length (promises this)"
  "unexpectedErrors (cancel r this) = unexpectedErrors this"
  "enabled (cancel r this) = enabled this"
  by (simp_all add: cancel_def requestRejected_def onUnexpectedError_def set_request_state_def)

lemma is_pending_cancel:
  "is_pending r' (cancel r this) = (is_pending r' this \<and> r' \<noteq> r)"
  by (auto simp: cancel_def is_pending_set_request_state
      is_pending_promises [of "requestRejected err x" x for err x])

lemma cancel_pending:
  "is_pending r this \<Longrightarrow> request_state (promises (cancel r this) ! r) = Cancelled"
  by (simp add: cancel_def is_pending_def set_request_state_def)

lemma unexpectedErrors_run: "unexpectedErrors (run position this) = unexpectedErrors this"
  by (simp add: run_def createCancelablePromise_def Let_def split: option.splits)

text \<open>What starting a resolution does to the slot and to the store.\<close>

lemma run_started:
  assumes "enabled this" "hasModel (editor this)" "single_slot this"
  shows "\<forall>r. is_pending r (run (Some pos) this) = (r = length (promises this))"
    and "currentRequest (run (Some pos) this) = Some (length (promises this))"
    and "\<forall>r. is_pending r this \<longrightarrow>
           request_state (promises (run (Some pos) this) ! r) = Cancelled"
proof -
  show "currentRequest (run (Some pos) this) = Some (length (promises this))"
    using assms by (simp add: run_def createCancelablePromise_def Let_def split: option.splits)
  show "\<forall>r. is_pending r (run (Some pos) this) = (r = length (promises this))"
  proof (cases "currentRequest this")
    case None
    then have "\<And>r. \<not> is_pending r this" using assms(3) by (auto simp: single_slot_def)
    then show ?thesis using assms None
      by (auto simp: run_def createCancelablePromise_def is_pending_def nth_append)
  next
    case (Some c)
    have "\<And>r. \<not> is_pending r (cancel c this)"
      using assms(3) Some by (auto simp: is_pending_cancel single_slot_def)
    then have "\<And>r. r < length (promises this) \<Longrightarrow>
                 request_state (promises (cancel c this) ! r) \<noteq> Pending"
      by (simp add: is_pending_def)
    then show ?thesis using assms Some
      by (auto simp: run_def createCancelablePromise_def is_pending_def nth_append)
  qed
  show "\<forall>r. is_pending r this \<longrightarrow>
           request_state (promises (run (Some pos) this) ! r) = Cancelled"
  proof (intro allI impI)
    fix r assume p: "is_pending r this"
    then have c: "currentRequest this = Some r" using assms(3) by (simp add: single_slot_def)
    have "r < length (promises (cancel r this))" using p by (simp add: is_pending_def)
    then show "request_state (promises (run (Some pos) this) ! r) = Cancelled"
      using assms(1,2) c cancel_pending [OF p]
      by (simp add: run_def createCancelablePromise_def nth_append)
  qed
qed

lemma single_slot_fields:
  "promises this' = promises this \<Longrightarrow> currentRequest this' = currentRequest this \<Longrightarrow>
   single_slot this \<Longrightarrow> single_slot this'"
  by (simp add: single_slot_def is_pending_def)

lemma single_slot_constructor: "single_slot (constructor ed)"
  by (simp add: single_slot_def is_pending_def constructor_def)

lemma single_slot_run: "single_slot this \<Longrightarrow> single_slot (run position this)"
proof (cases position)
  case None
  assume "single_slot this"
  then show ?thesis using None by (simp add: run_def)
next
  case (Some pos)
  assume s: "single_slot this"
  show ?thesis
  proof (cases "enabled this \<and> hasModel (editor this)")
    case True
    then show ?thesis using run_started(1,2) [of this pos] s Some by (simp add: single_slot_def)
  next
    case False
    then show ?thesis using s Some by (auto simp: run_def)
  qed
qed

lemma single_slot_stopAll: "single_slot this \<Longrightarrow> single_slot (stopAll this)"
  by (erule single_slot_fields [rotated 2]) simp_all

lemma single_slot_settle:
  assumes "single_slot this"
  shows "single_slot (settle r outcome this)"
proof (cases "is_pending r this")
  case False
  then show ?thesis using assms by (simp add: settle_def)
next
  case True
  have "is_pending r' (settle r outcome this) \<Longrightarrow> is_pending r' this" for r'
    using True
    by (cases outcome)
       (simp_all add: settle_def is_pending_set_request_state
          is_pending_promises [of "requestFulfilled v x" x for v x]
          is_pending_promises [of "requestRejected err x" x for err x])
  moreover have "currentRequest (settle r outcome this) = currentRequest this"
    by (cases outcome) (simp_all add: settle_def)
  ultimately show ?thesis using assms by (simp add: single_slot_def)
qed

lemma onDidChangeModelContent_fields:
  "onDidChangeModelContent e this = Inr this' \<Longrightarrow>
   promises this' = promises this \<and> currentRequest this' = currentRequest this"
  by (auto simp: onDidChangeModelContent_def Let_def split: option.splits list.splits if_splits)

lemma single_slot_editor [simp]: "single_slot (this\<lparr>editor := ed\<rparr>) = single_slot this"
  by (simp add: single_slot_def is_pending_def)

lemma single_slot_enabled [simp]: "single_slot (this\<lparr>enabled := b\<rparr>) = single_slot this"
  by (simp add: single_slot_def is_pending_def)

lemma single_slot_deliver: "single_slot this \<Longrightarrow> single_slot (deliver ev this)"
proof (cases ev)
  case (DidChangeModelContent offsets e)
  assume s: "single_slot this"
  let ?this0 = "this\<lparr>editor := (editor this)
                    \<lparr>getModel := map_option (\<lambda>m. m\<lparr>getOffsetAt := offsets\<rparr>)
                                   (getModel (editor this))\<rparr>\<rparr>"
  show ?thesis
  proof (cases "onDidChangeModelContent e ?this0")
    case (Inl err)
    then show ?thesis using s DidChangeModelContent by simp
  next
    case (Inr this')
    then show ?thesis using s DidChangeModelContent onDidChangeModelContent_fields [OF Inr]
      by (simp add: single_slot_def is_pending_def)
  qed
qed (simp_all add: onDidChangeModel_def onDidChangeConfiguration_def onDidChangeCursorPosition_def
      onRegistryDidChange_def Let_def single_slot_run single_slot_stopAll single_slot_settle)

lemma single_slot_run_events: "single_slot this \<Longrightarrow> single_slot (run_events evs this)"
  by (induction evs arbitrary: this) (simp_all add: single_slot_deliver)

lemma filter_eq_upt: "filter (\<lambda>r. r = n) [0..<m] = (if n < m then [n] else [])"
  by (induction m) auto

lemma single_slot_pending:
  assumes "single_slot this"
  shows "length (pending_requests this) \<le> 1"
proof (cases "currentRequest this")
  case None
  then have "pending_requests this = []" using assms
    by (auto simp: pending_requests_def single_slot_def is_pending_def filter_empty_conv)
  then show ?thesis by simp
next
  case (Some c)
  have d: "distinct (pending_requests this)" by (simp add: pending_requests_def)
  have "set (pending_requests this) \<subseteq> {c}" using assms Some
    by (auto simp: pending_requests_def single_slot_def is_pending_def)
  then have "card (set (pending_requests this)) \<le> card {c}" by (intro card_mono) simp_all
  then show ?thesis using d by (simp add: distinct_card)
qed

lemma pending_requests_started:
  assumes "\<forall>r. is_pending r this' = (r = n)"
  shows "pending_requests this' = [n]"
proof -
  have "is_pending n this'" using assms by simp
  then have len: "n < length (promises this')" by (simp add: is_pending_def)
  have "pending_requests this' = filter (\<lambda>r. r = n) [0..<length (promises this')]"
    unfolding pending_requests_def using assms
    by (intro filter_cong) (auto simp: is_pending_def)
  then show ?thesis using len by (simp add: filter_eq_upt)
qed

text \<open>
  C5. Let the contribution be in any state that its constructor and a sequence
  of events lead to. At most one request is pending. Starting a resolution
  (the feature enabled, a document present) leaves exactly one pending request,
  the new one, which is the one held in the slot; every request that was
  pending before is now cancelled. When the resolver's promise behind a
  cancelled request settles, with any outcome, the contribution is left exactly
  as it was: the range set, the decorations and the error sink are untouched.
  Starting a resolution, which is where requests are cancelled, reports nothing
  to the error sink.
\<close>

theorem single_outstanding_resolution:
  "length (pending_requests (run_events evs (constructor ed))) \<le> 1 \<and>
   (enabled (run_events evs (constructor ed)) \<and>
    hasModel (editor (run_events evs (constructor ed))) \<longrightarrow>
      pending_requests (run (Some pos) (run_events evs (constructor ed))) =
        [length (promises (run_events evs (constructor ed)))] \<and>
      currentRequest (run (Some pos) (run_events evs (constructor ed))) =
        Some (length (promises (run_events evs (constructor ed)))) \<and>
      (\<forall>r. is_pending r (run_events evs (constructor ed)) \<longrightarrow>
         request_state (promises (run (Some pos) (run_events evs (constructor ed))) ! r) =
           Cancelled)) \<and>
   (r < length (promises (run_events evs (constructor ed))) \<and>
    request_state (promises (run_events evs (constructor ed)) ! r) = Cancelled \<longrightarrow>
      settle r outcome (run_events evs (constructor ed)) = run_events evs (constructor ed)) \<and>
   unexpectedErrors (run position (run_events evs (constructor ed))) =
     unexpectedErrors (run_events evs (constructor ed))"
proof -
  define this where "this = run_events evs (constructor ed)"
  have inv: "single_slot this"
    by (simp add: this_def single_slot_run_events single_slot_constructor)
  have 1: "length (pending_requests this) \<le> 1"
    using inv by (rule single_slot_pending)
  have 2: "pending_requests (run (Some pos) this) = [length (promises this)] \<and>
      currentRequest (run (Some pos) this) = Some (length (promises this)) \<and>
      (\<forall>r. is_pending r this \<longrightarrow>
         request_state (promises (run (Some pos) this) ! r) = Cancelled)"
    if "enabled this \<and> hasModel (editor this)"
    using run_started [of this pos] that inv pending_requests_started by simp
  have 3: "settle r outcome this = this"
    if "r < length (promises this) \<and> request_state (promises this ! r) = Cancelled"
    using that by (simp add: settle_def is_pending_def)
  have 4: "unexpectedErrors (run position this) = unexpectedErrors this"
    by (rule unexpectedErrors_run)
  show ?thesis
    unfolding this_def [symmetric]
    apply (intro conjI impI)
    subgoal by (rule 1)
    subgoal using 2 by simp
    subgoal using 2 by simp
    subgoal using 2 by simp
    subgoal using 3 by simp
    subgoal by (rule 4)
    done
qed

text \<open>
  Two cursor movements in a row, then both resolutions settle, the older one
  first: the older one was cancelled by the second movement and its ranges are
  never recorded; the state at the end holds the ranges of the newer one.
\<close>

theorem single_outstanding_resolution_witness:
  "enabled (run_events [DidChangeCursorPosition \<lparr>lineNumber = 1, column = 7\<rparr>,
                        DidChangeCursorPosition \<lparr>lineNumber = 1, column = 8\<rparr>]
              (constructor (example_editor []))) \<and>
   hasModel (editor (run_events [DidChangeCursorPosition \<lparr>lineNumber = 1, column = 7\<rparr>,
                        DidChangeCursorPosition \<lparr>lineNumber = 1, column = 8\<rparr>]
              (constructor (example_editor [])))) \<and>
   map request_state (promises (run_events [DidChangeCursorPosition \<lparr>lineNumber = 1, column = 7\<rparr>,
                        DidChangeCursorPosition \<lparr>lineNumber = 1, column = 8\<rparr>]
              (constructor (example_editor [])))) = [Cancelled, Pending] \<and>
   settle 0 (Inr (Some [example_third]))
     (run_events [DidChangeCursorPosition \<lparr>lineNumber = 1, column = 7\<rparr>,
                  DidChangeCursorPosition \<lparr>lineNumber = 1, column = 8\<rparr>]
        (constructor (example_editor []))) =
     run_events [DidChangeCursorPosition \<lparr>lineNumber = 1, column = 7\<rparr>,
                 DidChangeCursorPosition \<lparr>lineNumber = 1, column = 8\<rparr>]
        (constructor (example_editor [])) \<and>
   pending_requests (run (Some \<lparr>lineNumber = 1, column = 9\<rparr>)
     (run_events [DidChangeCursorPosition \<lparr>lineNumber = 1, column = 7\<rparr>,
                  DidChangeCursorPosition \<lparr>lineNumber = 1, column = 8\<rparr>]
        (constructor (example_editor [])))) = [2] \<and>
   syncedRanges (run_events
       [DidChangeCursorPosition \<lparr>lineNumber = 1, column = 7\<rparr>,
        DidChangeCursorPosition \<lparr>lineNumber = 1, column = 8\<rparr>,
        RequestSettled 0 (Inr (Some [example_third])),
        RequestSettled 1 (Inr (Some [example_primary, example_mirror]))]
       (constructor (example_editor []))) = Some [example_primary, example_mirror]"
proof -
  let ?evs = "[DidChangeCursorPosition \<lparr>lineNumber = 1, column = 7\<rparr>,
               DidChangeCursorPosition \<lparr>lineNumber = 1, column = 8\<rparr>]"
  have st: "run_events ?evs (constructor (example_editor [])) =
     \<lparr>editor = (example_editor [])\<lparr>getPosition := Some \<lparr>lineNumber = 1, column = 8\<rparr>\<rparr>,
      enabled = True, currentRequest = Some 1, currentDecorations = [], syncedRanges = None,
      promises = [\<lparr>request_position = \<lparr>lineNumber = 1, column = 7\<rparr>, request_state = Cancelled\<rparr>,
                  \<lparr>request_position = \<lparr>lineNumber = 1, column = 8\<rparr>, request_state = Pending\<rparr>],
      unexpectedErrors = []\<rparr>"
    by (simp add: constructor_def example_editor_def onDidChangeCursorPosition_def run_def
        hasModel_def createCancelablePromise_def cancel_def is_pending_def set_request_state_def
        requestRejected_def onUnexpectedError_def)
  have last: "syncedRanges (run_events
       (?evs @ [RequestSettled 0 (Inr (Some [example_third])),
                RequestSettled 1 (Inr (Some [example_primary, example_mirror]))])
       (constructor (example_editor []))) = Some [example_primary, example_mirror]"
    by (simp add: constructor_def example_editor_def onDidChangeCursorPosition_def run_def
        hasModel_def createCancelablePromise_def cancel_def is_pending_def set_request_state_def
        requestRejected_def onUnexpectedError_def settle_def requestFulfilled_def
        deltaDecorations_def Let_def)
  show ?thesis
    using single_outstanding_resolution
      [of ?evs "example_editor []" "\<lparr>lineNumber = 1, column = 9\<rparr>" 0
          "Inr (Some [example_third])" None]
      last
    unfolding st
    by (simp add: example_editor_def hasModel_def)
qed

section \<open>The resolver: order, short circuit, failures and cancellation\<close>

lemma factory_result:
  "fst (provider_factory model position token p w) =
     slot_result model position token (length (invoked w)) (p # ps) 0"
  by (simp add: provider_factory_def slot_result_def slot_thrown_def slot_value_def
      isCancellationRequested_def onUnexpectedExternalError_def Let_def
      split: provider_outcome.splits)

lemma factory_invoked:
  "invoked (snd (provider_factory model position token p w)) =
     invoked w @ [slot_call token (length (invoked w)) (p # ps) 0]"
  by (simp add: provider_factory_def slot_call_def isCancellationRequested_def
      onUnexpectedExternalError_def Let_def split: provider_outcome.splits)

lemma factory_errors:
  "externalErrors (snd (provider_factory model position token p w)) =
     externalErrors w @ slot_errors model position token (length (invoked w)) (p # ps) 0"
  by (simp add: provider_factory_def slot_errors_def isCancellationRequested_def
      onUnexpectedExternalError_def Let_def split: provider_outcome.splits)

lemma slot_Suc [simp]:
  "slot_value model position token n0 (p # ps) (Suc i) = slot_value model position token (Suc n0) ps i"
  "slot_thrown model position token n0 (p # ps) (Suc i) = slot_thrown model position token (Suc n0) ps i"
  "slot_call token n0 (p # ps) (Suc i) = slot_call token (Suc n0) ps i"
  "slot_errors model position token n0 (p # ps) (Suc i) = slot_errors model position token (Suc n0) ps i"
  by (simp_all add: slot_value_def slot_thrown_def slot_call_def slot_errors_def)

lemma slot_passes_Suc [simp]:
  "slot_passes model position token n0 (p # ps) (Suc i) = slot_passes model position token (Suc n0) ps i"
  "slot_result model position token n0 (p # ps) (Suc i) = slot_result model position token (Suc n0) ps i"
  by (simp_all add: slot_passes_def slot_result_def split: option.splits)

lemma slot_result_passes:
  "slot_passes model position token n0 ps i \<Longrightarrow>
   slot_result model position token n0 ps i = Inr (slot_value model position token n0 ps i)"
  by (simp add: slot_passes_def slot_result_def)

lemma accepted_not_thrown:
  "isNonEmptyArray (slot_value model position token n0 ps i) \<Longrightarrow>
   slot_thrown model position token n0 ps i = None"
  by (simp add: slot_value_def slot_thrown_def isNonEmptyArray_def split: provider_outcome.splits)

lemma first_Cons_stops:
  assumes "fst (f w) = r" and "\<not> (\<exists>v. r = Inr v \<and> \<not> shouldStop v)"
  shows "first (f # fs) shouldStop w = f w"
  using assms by (cases "f w"; cases r) auto

lemma first_Cons_passes:
  assumes "fst (f w) = Inr v" and "\<not> shouldStop v"
  shows "first (f # fs) shouldStop w = first fs shouldStop (snd (f w))"
  using assms by (cases "f w") auto

text \<open>
  The run of \<^verbatim>\<open>first\<close> over the factories when slot \<open>i\<close> is the first that does
  not pass, and when every slot passes.
\<close>

lemma first_stops:
  assumes "i < length ps"
      and "\<not> slot_passes model position token (length (invoked w)) ps i"
      and "\<forall>j<i. slot_passes model position token (length (invoked w)) ps j"
  shows "fst (first (map (provider_factory model position token) ps) isNonEmptyArray w) =
           slot_result model position token (length (invoked w)) ps i \<and>
         invoked (snd (first (map (provider_factory model position token) ps) isNonEmptyArray w)) =
           invoked w @ map (slot_call token (length (invoked w)) ps) [0..<Suc i] \<and>
         externalErrors (snd (first (map (provider_factory model position token) ps) isNonEmptyArray w)) =
           externalErrors w @
           concat (map (slot_errors model position token (length (invoked w)) ps) [0..<Suc i])"
  using assms
proof (induction ps arbitrary: w i)
  case Nil
  then show ?case by simp
next
  case (Cons p ps)
  let ?f = "provider_factory model position token p"
  let ?w' = "snd (?f w)"
  let ?n0 = "length (invoked w)"
  have len: "length (invoked ?w') = Suc ?n0"
    by (simp add: factory_invoked [where ps = ps])
  have res: "fst (?f w) = slot_result model position token ?n0 (p # ps) 0"
    by (rule factory_result)
  show ?case
  proof (cases i)
    case 0
    have "\<not> (\<exists>v. slot_result model position token ?n0 (p # ps) 0 = Inr v \<and> \<not> isNonEmptyArray v)"
      using Cons.prems(2) 0
      by (auto simp: slot_passes_def slot_result_def split: option.splits)
    then have "first (?f # map (provider_factory model position token) ps) isNonEmptyArray w = ?f w"
      using res by (intro first_Cons_stops) auto
    then show ?thesis using 0 res
      by (simp del: first.simps add: factory_invoked [where ps = ps] factory_errors [where ps = ps])
  next
    case (Suc i')
    have pass: "slot_passes model position token ?n0 (p # ps) 0"
      using Cons.prems(3) Suc by simp
    then have v: "fst (?f w) = Inr (slot_value model position token ?n0 (p # ps) 0)"
      and no: "\<not> isNonEmptyArray (slot_value model position token ?n0 (p # ps) 0)"
      using res by (simp_all add: slot_result_passes slot_passes_def)
    have step: "first (?f # map (provider_factory model position token) ps) isNonEmptyArray w =
            first (map (provider_factory model position token) ps) isNonEmptyArray ?w'"
      using v no by (rule first_Cons_passes)
    have "i' < length ps" using Cons.prems(1) Suc by simp
    moreover have "\<not> slot_passes model position token (length (invoked ?w')) ps i'"
      using Cons.prems(2) Suc len by simp
    moreover have "\<forall>j<i'. slot_passes model position token (length (invoked ?w')) ps j"
      using Cons.prems(3) Suc len by auto
    ultimately have IH:
        "fst (first (map (provider_factory model position token) ps) isNonEmptyArray ?w') =
           slot_result model position token (length (invoked ?w')) ps i' \<and>
         invoked (snd (first (map (provider_factory model position token) ps) isNonEmptyArray ?w')) =
           invoked ?w' @ map (slot_call token (length (invoked ?w')) ps) [0..<Suc i'] \<and>
         externalErrors (snd (first (map (provider_factory model position token) ps) isNonEmptyArray ?w')) =
           externalErrors ?w' @
           concat (map (slot_errors model position token (length (invoked ?w')) ps) [0..<Suc i'])"
      by (rule Cons.IH)
    have m1: "map (slot_call token ?n0 (p # ps)) [0..<Suc (Suc i')] =
            slot_call token ?n0 (p # ps) 0 # map (slot_call token (Suc ?n0) ps) [0..<Suc i']"
      by (subst map_upt_Suc) simp
    have m2: "map (slot_errors model position token ?n0 (p # ps)) [0..<Suc (Suc i')] =
            slot_errors model position token ?n0 (p # ps) 0 #
            map (slot_errors model position token (Suc ?n0) ps) [0..<Suc i']"
      by (subst map_upt_Suc) simp
    show ?thesis
      using IH unfolding Suc len m1 m2 list.map step
      by (simp del: first.simps upt_Suc
          add: factory_invoked [where ps = ps] factory_errors [where ps = ps])
  qed
qed

lemma first_exhausts:
  assumes "\<forall>j<length ps. slot_passes model position token (length (invoked w)) ps j"
  shows "fst (first (map (provider_factory model position token) ps) isNonEmptyArray w) = Inr None \<and>
         invoked (snd (first (map (provider_factory model position token) ps) isNonEmptyArray w)) =
           invoked w @ map (slot_call token (length (invoked w)) ps) [0..<length ps] \<and>
         externalErrors (snd (first (map (provider_factory model position token) ps) isNonEmptyArray w)) =
           externalErrors w @
           concat (map (slot_errors model position token (length (invoked w)) ps) [0..<length ps])"
  using assms
proof (induction ps arbitrary: w)
  case Nil
  then show ?case by simp
next
  case (Cons p ps)
  let ?f = "provider_factory model position token p"
  let ?w' = "snd (?f w)"
  let ?n0 = "length (invoked w)"
  have len: "length (invoked ?w') = Suc ?n0"
    by (simp add: factory_invoked [where ps = ps])
  have pass: "slot_passes model position token ?n0 (p # ps) 0"
    using Cons.prems by simp
  then have v: "fst (?f w) = Inr (slot_value model position token ?n0 (p # ps) 0)"
    and no: "\<not> isNonEmptyArray (slot_value model position token ?n0 (p # ps) 0)"
    using factory_result [of model position token p w ps]
    by (simp_all add: slot_result_passes slot_passes_def)
  have step: "first (?f # map (provider_factory model position token) ps) isNonEmptyArray w =
          first (map (provider_factory model position token) ps) isNonEmptyArray ?w'"
    using v no by (rule first_Cons_passes)
  have "\<forall>j<length ps. slot_passes model position token (length (invoked ?w')) ps j"
    using Cons.prems len by auto
  then have IH:
      "fst (first (map (provider_factory model position token) ps) isNonEmptyArray ?w') = Inr None \<and>
       invoked (snd (first (map (provider_factory model position token) ps) isNonEmptyArray ?w')) =
         invoked ?w' @ map (slot_call token (length (invoked ?w')) ps) [0..<length ps] \<and>
       externalErrors (snd (first (map (provider_factory model position token) ps) isNonEmptyArray ?w')) =
         externalErrors ?w' @
         concat (map (slot_errors model position token (length (invoked ?w')) ps) [0..<length ps])"
    by (rule Cons.IH)
  have m1: "map (slot_call token ?n0 (p # ps)) [0..<Suc (length ps)] =
          slot_call token ?n0 (p # ps) 0 # map (slot_call token (Suc ?n0) ps) [0..<length ps]"
    by (subst map_upt_Suc) simp
  have m2: "map (slot_errors model position token ?n0 (p # ps)) [0..<Suc (length ps)] =
          slot_errors model position token ?n0 (p # ps) 0 #
          map (slot_errors model position token (Suc ?n0) ps) [0..<length ps]"
    by (subst map_upt_Suc) simp
  show ?case
    using IH unfolding len list.map step
    by (simp del: first.simps upt_Suc
        add: m1 m2 factory_invoked [where ps = ps] factory_errors [where ps = ps])
qed

lemma least_stopping:
  assumes "\<exists>i. stopping_slot model position token n0 ps i"
  obtains i where "i < length ps"
    and "\<not> slot_passes model position token n0 ps i"
    and "\<forall>j<i. slot_passes model position token n0 ps j"
proof -
  from assms obtain i where i: "stopping_slot model position token n0 ps i"
    and least: "\<forall>j<i. \<not> stopping_slot model position token n0 ps j"
    using exists_least_iff [of "stopping_slot model position token n0 ps"] by blast
  have "i < length ps" "\<not> slot_passes model position token n0 ps i"
    using i by (simp_all add: stopping_slot_def)
  moreover have "slot_passes model position token n0 ps j" if "j < i" for j
  proof -
    have "j < length ps" using that \<open>i < length ps\<close> by simp
    moreover have "\<not> stopping_slot model position token n0 ps j" using least that by simp
    ultimately show ?thesis by (simp add: stopping_slot_def)
  qed
  ultimately show thesis using that by blast
qed

lemma map_nth_upt_take:
  "n \<le> length ps \<Longrightarrow> map (\<lambda>i. f (ps ! i)) [0..<n] = map f (take n ps)"
  by (simp add: list_eq_iff_nth_eq)

lemma map_fst_slot_call:
  "n \<le> length ps \<Longrightarrow> map fst (map (slot_call token n0 ps) [0..<n]) = map providerId (take n ps)"
  using map_nth_upt_take [of n ps providerId] by (simp add: slot_call_def comp_def)

lemma ordered_entries_sorted:
  "sorted_wrt (\<lambda>a b. entry_score b \<le> entry_score a) (ordered_entries registry)"
proof -
  have "sorted (map (\<lambda>entry. - entry_score entry) (ordered_entries registry))"
    unfolding ordered_entries_def by (rule sorted_sort_key)
  then show ?thesis by (simp add: sorted_map)
qed

text \<open>
  What does hold of the order and of the short circuit: the providers are taken
  in descending order of score; the run stops at the first slot that does not
  pass, returns that slot's array or ends with the error thrown there, and has
  invoked exactly the providers up to it; when every slot passes, the result is
  no result and all providers have been invoked.
\<close>

lemma resolver_run:
  "sorted_wrt (\<lambda>a b. entry_score b \<le> entry_score a) (ordered_entries registry) \<and>
   set (ordered_entries registry) = set registry \<and>
   length (ordered registry) = length registry \<and>
   (\<forall>i<length (ordered registry).
      \<not> slot_passes model position token 0 (ordered registry) i \<and>
      (\<forall>j<i. slot_passes model position token 0 (ordered registry) j) \<longrightarrow>
      fst (getOnTypeRenameRanges registry model position token new_world) =
        slot_result model position token 0 (ordered registry) i \<and>
      map fst (invoked (snd (getOnTypeRenameRanges registry model position token new_world))) =
        map providerId (take (Suc i) (ordered registry))) \<and>
   ((\<forall>i<length (ordered registry). slot_passes model position token 0 (ordered registry) i) \<longrightarrow>
      fst (getOnTypeRenameRanges registry model position token new_world) = Inr None \<and>
      map fst (invoked (snd (getOnTypeRenameRanges registry model position token new_world))) =
        map providerId (ordered registry))"
proof -
  let ?ps = "ordered registry"
  have w: "length (invoked new_world) = 0" "invoked new_world = []" by (simp_all add: new_world_def)
  have a: "fst (getOnTypeRenameRanges registry model position token new_world) =
        slot_result model position token 0 ?ps i \<and>
      map fst (invoked (snd (getOnTypeRenameRanges registry model position token new_world))) =
        map providerId (take (Suc i) ?ps)"
    if "i < length ?ps" "\<not> slot_passes model position token 0 ?ps i"
       "\<forall>j<i. slot_passes model position token 0 ?ps j" for i
    using first_stops [of i ?ps model position token new_world] that
      map_fst_slot_call [of "Suc i" ?ps token 0]
    by (simp add: getOnTypeRenameRanges_def w del: upt_Suc)
  have b: "fst (getOnTypeRenameRanges registry model position token new_world) = Inr None \<and>
      map fst (invoked (snd (getOnTypeRenameRanges registry model position token new_world))) =
        map providerId ?ps"
    if "\<forall>i<length ?ps. slot_passes model position token 0 ?ps i"
    using first_exhausts [of ?ps model position token new_world] that
      map_fst_slot_call [of "length ?ps" ?ps token 0]
    by (simp add: getOnTypeRenameRanges_def w)
  have c: "set (ordered_entries registry) = set registry" "length ?ps = length registry"
    by (simp_all add: ordered_def ordered_entries_def)
  show ?thesis
    apply (intro conjI allI impI)
    subgoal by (rule ordered_entries_sorted)
    subgoal by (rule c)
    subgoal by (rule c)
    subgoal for i using a [of i] by simp
    subgoal for i using a [of i] by simp
    subgoal using b by simp
    subgoal using b by simp
    done
qed

lemma ordered_example_registry: "ordered example_registry = [provider_empty, provider_pair]"
  by (simp add: ordered_def ordered_entries_def example_registry_def)

lemma ordered_failing_registry: "ordered failing_registry = [provider_failing, provider_pair]"
  by (simp add: ordered_def ordered_entries_def failing_registry_def)

lemma ordered_throwing_registry: "ordered throwing_registry = [provider_throwing, provider_pair]"
  by (simp add: ordered_def ordered_entries_def throwing_registry_def)

lemma ordered_throwing_empty_registry:
  "ordered throwing_empty_registry = [provider_throwing, provider_empty]"
  by (simp add: ordered_def ordered_entries_def throwing_empty_registry_def)

lemma slot_value_cancelled:
  "cancelAfter token = Some k \<Longrightarrow> k \<le> n0 + i \<Longrightarrow>
   slot_value model position token n0 ps i =
     (case provideOnTypeRenameRanges (ps ! i) model position True of
        Resolves v \<Rightarrow> v | Rejects err \<Rightarrow> None | Throws err \<Rightarrow> None)"
  by (simp add: slot_value_def cancelledAt_def)

lemma slot_call_cancelled:
  "cancelAfter token = Some k \<Longrightarrow> slot_call token 0 ps = (\<lambda>i. (providerId (ps ! i), k \<le> i))"
  by (simp add: slot_call_def cancelledAt_def fun_eq_iff)

text \<open>
  The sibling path: a provider whose promise rejects. Its error goes to the
  sink, the next provider is invoked, and that provider's ranges are the result.
\<close>

lemma rejecting_provider_passed_over:
  "getOnTypeRenameRanges failing_registry example_model \<lparr>lineNumber = 1, column = 7\<rparr>
      CancellationToken_None new_world =
     (Inr (Some [example_primary, example_mirror]),
      \<lparr>invoked = [(3, False), (2, False)], externalErrors = [Failure ''provider failed'']\<rparr>)"
  by (simp add: getOnTypeRenameRanges_def ordered_failing_registry provider_factory_def
      isCancellationRequested_def cancelledAt_def new_world_def isNonEmptyArray_def
      provider_failing_def provider_pair_def CancellationToken_None_def
      onUnexpectedExternalError_def)

text \<open>
  C4: the failing input. Two providers are registered: the one with the higher
  score throws when it is called, the other answers with an empty array. Every
  provider yields an empty or a failing result, so the claim has the resolver
  return no result. The resolver ends with the thrown error instead, and the
  second provider is never asked.
\<close>

theorem throwing_provider_no_result_lost:
  "getOnTypeRenameRanges throwing_empty_registry example_model \<lparr>lineNumber = 1, column = 7\<rparr>
      CancellationToken_None new_world =
     (Inl (Failure ''provider threw''),
      \<lparr>invoked = [(4, False)], externalErrors = []\<rparr>)"
  by (simp add: getOnTypeRenameRanges_def ordered_throwing_empty_registry provider_factory_def
      isCancellationRequested_def cancelledAt_def new_world_def
      provider_throwing_def CancellationToken_None_def)

text \<open>
  C7: the failing input. The provider with the higher score throws when it is
  called; the other one would answer with two ranges. The claim has the error
  reported to the sink and the second provider's ranges returned. The resolver
  ends with the thrown error, reports nothing to the sink, and never asks the
  second provider.
\<close>

theorem throwing_provider_aborts_resolution:
  "fst (getOnTypeRenameRanges throwing_registry example_model \<lparr>lineNumber = 1, column = 7\<rparr>
      CancellationToken_None new_world) = Inl (Failure ''provider threw'') \<and>
   externalErrors (snd (getOnTypeRenameRanges throwing_registry example_model
      \<lparr>lineNumber = 1, column = 7\<rparr> CancellationToken_None new_world)) = [] \<and>
   invoked (snd (getOnTypeRenameRanges throwing_registry example_model
      \<lparr>lineNumber = 1, column = 7\<rparr> CancellationToken_None new_world)) = [(4, False)]"
  by (simp add: getOnTypeRenameRanges_def ordered_throwing_registry provider_factory_def
      isCancellationRequested_def cancelledAt_def new_world_def
      provider_throwing_def CancellationToken_None_def)

text \<open>
  C6, as amended. The resolver never reads the token; it hands it to each
  provider it invokes. Let the request for cancellation arrive once \<open>k\<close>
  providers have been invoked, each of which passed (it did not throw and its
  result was not accepted), while a provider remains. Then the resolver does
  not stop: the provider of slot \<open>k\<close> is invoked, with the cancelled token. As
  long as the providers pass, each later one is invoked in order; the first
  that yields a non-empty array ends the run, and that array is returned; when
  every provider passes, that is, yields an empty array, no value or a rejected
  promise, the resolver returns no result, having invoked all of them. A
  provider that throws is outside this statement.
\<close>

theorem resolver_hands_cancelled_token_on:
  assumes tok: "cancelAfter token = Some k"
      and k: "k < length (ordered registry)"
      and reached: "\<forall>j<k. slot_passes model position token 0 (ordered registry) j"
  shows "(k < length (invoked (snd (getOnTypeRenameRanges registry model position token new_world))) \<and>
          invoked (snd (getOnTypeRenameRanges registry model position token new_world)) ! k =
            (providerId (ordered registry ! k), True)) \<and>
         (\<forall>i. k \<le> i \<longrightarrow>
            slot_value model position token 0 (ordered registry) i =
              (case provideOnTypeRenameRanges (ordered registry ! i) model position True of
                 Resolves v \<Rightarrow> v | Rejects err \<Rightarrow> None | Throws err \<Rightarrow> None)) \<and>
         (\<forall>i<length (ordered registry).
            isNonEmptyArray (slot_value model position token 0 (ordered registry) i) \<and>
            (\<forall>j<i. slot_passes model position token 0 (ordered registry) j) \<longrightarrow>
            fst (getOnTypeRenameRanges registry model position token new_world) =
              Inr (slot_value model position token 0 (ordered registry) i) \<and>
            invoked (snd (getOnTypeRenameRanges registry model position token new_world)) =
              map (\<lambda>i. (providerId (ordered registry ! i), k \<le> i)) [0..<Suc i]) \<and>
         ((\<forall>i<length (ordered registry). slot_passes model position token 0 (ordered registry) i) \<longrightarrow>
            fst (getOnTypeRenameRanges registry model position token new_world) = Inr None \<and>
            invoked (snd (getOnTypeRenameRanges registry model position token new_world)) =
              map (\<lambda>i. (providerId (ordered registry ! i), k \<le> i)) [0..<length (ordered registry)])"
proof -
  let ?ps = "ordered registry"
  let ?R = "getOnTypeRenameRanges registry model position token new_world"
  let ?call = "\<lambda>i. (providerId (?ps ! i), k \<le> i)"
  have w: "length (invoked new_world) = 0" "invoked new_world = []" by (simp_all add: new_world_def)
  have stop: "fst ?R = slot_result model position token 0 ?ps i \<and>
              invoked (snd ?R) = map ?call [0..<Suc i]"
    if "i < length ?ps" "\<not> slot_passes model position token 0 ?ps i"
       "\<forall>j<i. slot_passes model position token 0 ?ps j" for i
    using first_stops [of i ?ps model position token new_world] that
    by (simp add: getOnTypeRenameRanges_def w slot_call_cancelled [OF tok] del: upt_Suc)
  have acc: "fst ?R = Inr (slot_value model position token 0 ?ps i) \<and>
             invoked (snd ?R) = map ?call [0..<Suc i]"
    if i: "i < length ?ps" and a: "isNonEmptyArray (slot_value model position token 0 ?ps i)"
       and l: "\<forall>j<i. slot_passes model position token 0 ?ps j" for i
  proof -
    have n: "\<not> slot_passes model position token 0 ?ps i" using a by (simp add: slot_passes_def)
    have "slot_result model position token 0 ?ps i = Inr (slot_value model position token 0 ?ps i)"
      using accepted_not_thrown [OF a] by (simp add: slot_result_def)
    then show ?thesis using stop [OF i n l] by simp
  qed
  have exh: "fst ?R = Inr None \<and> invoked (snd ?R) = map ?call [0..<length ?ps]"
    if "\<forall>i<length ?ps. slot_passes model position token 0 ?ps i"
    using first_exhausts [of ?ps model position token new_world] that
    by (simp add: getOnTypeRenameRanges_def w slot_call_cancelled [OF tok])
  have val: "slot_value model position token 0 ?ps i =
              (case provideOnTypeRenameRanges (?ps ! i) model position True of
                 Resolves v \<Rightarrow> v | Rejects err \<Rightarrow> None | Throws err \<Rightarrow> None)" if "k \<le> i" for i
    using slot_value_cancelled [OF tok, of 0 i model position ?ps] that by simp
  have next_invoked:
    "k < length (invoked (snd ?R)) \<and> invoked (snd ?R) ! k = (providerId (?ps ! k), True)"
  proof (cases "\<exists>i. stopping_slot model position token 0 ?ps i")
    case True
    then obtain i where i: "i < length ?ps"
        "\<not> slot_passes model position token 0 ?ps i"
        "\<forall>j<i. slot_passes model position token 0 ?ps j"
      by (rule least_stopping)
    have "k \<le> i" using reached i(2) by (meson not_le_imp_less)
    then have "k < Suc i" by simp
    then show ?thesis using stop [OF i] by (simp del: upt_Suc)
  next
    case False
    then have "\<forall>i<length ?ps. slot_passes model position token 0 ?ps i"
      by (simp add: stopping_slot_def)
    then show ?thesis using exh k by simp
  qed
  show ?thesis
    apply (intro conjI allI impI)
    subgoal using next_invoked by simp
    subgoal using next_invoked by simp
    subgoal for i using val [of i] by simp
    subgoal for i using acc [of i] by simp
    subgoal for i using acc [of i] by simp
    subgoal using exh by simp
    subgoal using exh by simp
    done
qed

theorem resolver_hands_cancelled_token_on_witness:
  "cancelAfter \<lparr>cancelAfter = Some 1\<rparr> = Some 1 \<and>
   1 < length (ordered example_registry) \<and>
   slot_passes example_model \<lparr>lineNumber = 1, column = 7\<rparr>
        \<lparr>cancelAfter = Some 1\<rparr> 0 (ordered example_registry) 0 \<and>
   invoked (snd (getOnTypeRenameRanges example_registry example_model
        \<lparr>lineNumber = 1, column = 7\<rparr> \<lparr>cancelAfter = Some 1\<rparr> new_world)) ! 1 = (2, True)"
proof -
  have v: "slot_passes example_model \<lparr>lineNumber = 1, column = 7\<rparr>
             \<lparr>cancelAfter = Some 1\<rparr> 0 (ordered example_registry) 0"
    by (simp add: slot_passes_def slot_value_def slot_thrown_def ordered_example_registry
        provider_empty_def isNonEmptyArray_def)
  have l: "\<forall>j<1. slot_passes example_model \<lparr>lineNumber = 1, column = 7\<rparr>
             \<lparr>cancelAfter = Some 1\<rparr> 0 (ordered example_registry) j"
    using v by simp
  have k: "1 < length (ordered example_registry)"
    by (simp add: ordered_example_registry)
  show ?thesis
    using resolver_hands_cancelled_token_on
      [of "\<lparr>cancelAfter = Some 1\<rparr>" 1 example_registry example_model
          "\<lparr>lineNumber = 1, column = 7\<rparr>", OF _ k l]
      v
    by (simp add: ordered_example_registry provider_pair_def)
qed

text \<open>
  C6 as stated fails. The token is cancelled after the first provider has been
  invoked; that provider answers with an empty array. The resolver goes on to
  the second provider, which answers with two ranges although the token it is
  handed is cancelled, and these two ranges are the resolver's result.
\<close>

theorem resolver_stops_when_cancelled_counterexample:
  "getOnTypeRenameRanges example_registry example_model \<lparr>lineNumber = 1, column = 7\<rparr>
      \<lparr>cancelAfter = Some 1\<rparr> new_world =
     (Inr (Some [example_primary, example_mirror]),
      \<lparr>invoked = [(1, False), (2, True)], externalErrors = []\<rparr>)"
  by (simp add: getOnTypeRenameRanges_def ordered_example_registry provider_factory_def
      isCancellationRequested_def cancelledAt_def new_world_def isNonEmptyArray_def
      provider_empty_def provider_pair_def)

end
